theory Spec2Isabelle
  imports Main "HOL-Library.Word" "HOL-Library.AList" "HOL-Library.Sublist"
    "HOL-Library.Monad_Syntax"
begin

text \<open>
  The member role of the clustering proxy: target selection (\<open>internal/util\<close>,
  \<open>internal/upstream\<close> and the member handler), the read-through cache of the member
  handler, its dispatch and error bodies, and the forwarder (\<open>internal/proxy\<close>). The
  definitions follow the Go sources function by function; the claims C1 to C10 of the
  specification are stated and settled after them.
\<close>

unbundle bit_operations_syntax

section \<open>Go values\<close>

text \<open>
  A Go string is a sequence of bytes: \<open>string\<close> (a list of 8-bit \<open>char\<close>s). Go's
  \<open>int\<close> is the 64-bit two's complement integer of the platforms the Dockerfile builds
  for (linux on amd64 or arm64): a \<open>64 word\<close> read with \<open>sint\<close>; \<open>uint32\<close> is a
  \<open>32 word\<close>. A conversion between integer types keeps the low bits (\<open>ucast\<close>).
  A Go error value is modelled by its message; a run-time panic is an outcome of its own.
\<close>

type_synonym bytes = string
type_synonym go_int = "64 word"
type_synonym uint32 = "32 word"

datatype goerror = GoError (Error_msg: string)

datatype panic = DivideByZero | IndexOutOfRange | NilDereference

datatype 'a outcome = Returns 'a | Panics panic

section \<open>internal/util/hash.go\<close>

text \<open>
  \<open>hash/fnv\<close>, the 32-bit FNV-1a hash of Go's standard library: \<open>New32a\<close> starts from the
  offset basis, \<open>Write\<close> folds every byte in by xor, then multiplication by the prime
  (modulo \<open>2^32\<close>), \<open>Sum32\<close> reads the state.
\<close>

definition offset32 :: uint32 where
  "offset32 = 2166136261"

definition prime32 :: uint32 where
  "prime32 = 16777619"

definition New32a :: uint32 where
  "New32a = offset32"

fun fnv_Write :: "uint32 \<Rightarrow> bytes \<Rightarrow> uint32" where
  "fnv_Write h [] = h"
| "fnv_Write h (c # cs) = fnv_Write ((h XOR of_char c) * prime32) cs"

definition Sum32 :: "uint32 \<Rightarrow> uint32" where
  "Sum32 h = h"

text \<open>
  \<open>ConsistentIndex\<close>: the guard on \<open>buckets <= 0\<close>, then the hash modulo
  \<open>uint32(buckets)\<close>. Go panics on an integer division by zero, so the remainder is
  guarded by the value of the converted divisor.
\<close>

definition ConsistentIndex :: "string \<Rightarrow> go_int \<Rightarrow> go_int outcome" where
  "ConsistentIndex key buckets =
     (if sint buckets \<le> 0 then Returns 0
      else
        let h = fnv_Write New32a key;
            d = (ucast buckets :: uint32)
        in if d = 0 then Panics DivideByZero
           else Returns (ucast (Sum32 h mod d)))"

section \<open>Strings\<close>

text \<open>
  The functions of Go's \<open>strings\<close> package that the handler calls, on byte strings.
  \<open>Split\<close> is used with one-byte separators only (\<open>/\<close>, and \<open>&\<close> for the
  pairs of a query, which \<open>ParseQuery\<close> cuts off one by one).
\<close>

fun Split :: "string \<Rightarrow> char \<Rightarrow> string list" where
  "Split [] sep = [[]]"
| "Split (c # cs) sep =
     (if c = sep then [] # Split cs sep
      else (case Split cs sep of
              [] \<Rightarrow> [[c]]
            | s # ss \<Rightarrow> (c # s) # ss))"

fun Join :: "string list \<Rightarrow> string \<Rightarrow> string" where
  "Join [] sep = []"
| "Join [s] sep = s"
| "Join (s # t # ss) sep = s @ sep @ Join (t # ss) sep"

text \<open>\<open>strings.LastIndexByte\<close>: the index of the last occurrence, or -1.\<close>

fun LastIndexByte :: "string \<Rightarrow> char \<Rightarrow> int" where
  "LastIndexByte [] c = -1"
| "LastIndexByte (x # xs) c =
     (let i = LastIndexByte xs c
      in if i \<ge> 0 then i + 1 else if x = c then 0 else -1)"

section \<open>URLs and member targets (internal/upstream)\<close>

text \<open>
  \<open>url.URL\<close> with the fields the member handler reads and writes. The targets this
  development looks at have no user info, opaque part or fragment.
\<close>

record URL =
  Scheme :: string
  Host :: string
  Path :: string
  RawQuery :: string

datatype MemberTargetKind = MemberTargetUnknown | MemberTargetDirect | MemberTargetStatic

text \<open>\<open>Base\<close> is a pointer in the source: \<open>None\<close> is nil (a Direct target has none).\<close>

record MemberTarget =
  Kind :: MemberTargetKind
  Base :: "URL option"

text \<open>
  \<open>joinURLPath\<close> and \<open>ensureLeadingSlash\<close> of pool.go, which \<open>Target.Resolve\<close> (the
  provider role) uses to append a request path to a base path.
\<close>

definition ensureLeadingSlash :: "string \<Rightarrow> string" where
  "ensureLeadingSlash path =
     (if path = [] then ''/''
      else if hd path \<noteq> CHR ''/'' then ''/'' @ path
      else path)"

definition joinURLPath :: "string \<Rightarrow> string \<Rightarrow> string" where
  "joinURLPath basePath reqPath =
     (if basePath = [] then
        (if reqPath = [] then ''/'' else ensureLeadingSlash reqPath)
      else if reqPath = [] then ensureLeadingSlash basePath
      else
        let b = ensureLeadingSlash basePath;
            r = ensureLeadingSlash reqPath
        in if last b = CHR ''/'' then b @ tl r else b @ r)"

definition Target_Resolve :: "URL \<Rightarrow> string \<Rightarrow> string \<Rightarrow> URL" where
  "Target_Resolve base path rawQuery =
     base\<lparr>Path := joinURLPath (Path base) path, RawQuery := rawQuery\<rparr>"

section \<open>Reference resolution (net/url)\<close>

text \<open>
  \<open>URL.ResolveReference\<close> of Go's standard library follows RFC 3986, section 5.2.
  \<open>resolvePath\<close> picks the path to normalise: the base path when the reference path is
  empty, the reference path alone when it starts with a slash, and otherwise the base path
  up to its last slash followed by the reference path. It then walks the segments,
  dropping \<open>.\<close> and resolving \<open>..\<close>. The loop state is the builder \<open>dst\<close> and the
  flag \<open>first\<close>.
\<close>

definition resolvePath_step :: "string \<times> bool \<Rightarrow> string \<Rightarrow> string \<times> bool" where
  "resolvePath_step st elem =
     (case st of (dst, first) \<Rightarrow>
        if elem = ''.'' then (dst, False)
        else if elem = ''..'' then
          (let str = tl dst;
               index = LastIndexByte str (CHR ''/'')
           in if index = -1 then (''/'', True)
              else (''/'' @ take (nat index) str, first))
        else ((if \<not> first then dst @ ''/'' else dst) @ elem, False))"

definition resolvePath :: "string \<Rightarrow> string \<Rightarrow> string" where
  "resolvePath base ref =
     (let full =
            (if ref = [] then base
             else if hd ref \<noteq> CHR ''/'' then
               take (nat (LastIndexByte base (CHR ''/'') + 1)) base @ ref
             else ref)
      in if full = [] then []
         else
           let elems = Split full (CHR ''/'');
               dst = fst (foldl resolvePath_step (''/'', True) elems);
               dst' = (if last elems = ''.'' \<or> last elems = ''..'' then dst @ ''/'' else dst)
           in if length dst' > 1 \<and> dst' ! 1 = CHR ''/'' then tl dst' else dst')"

definition ResolveReference :: "URL \<Rightarrow> URL \<Rightarrow> URL" where
  "ResolveReference u ref =
     (let url = (if Scheme ref = [] then ref\<lparr>Scheme := Scheme u\<rparr> else ref)
      in if Scheme ref \<noteq> [] \<or> Host ref \<noteq> [] then
           url\<lparr>Path := resolvePath (Path ref) []\<rparr>
         else
           let url1 = (if Path ref = [] \<and> RawQuery ref = []
                       then url\<lparr>RawQuery := RawQuery u\<rparr> else url)
           in url1\<lparr>Host := Host u, Path := resolvePath (Path u) (Path ref)\<rparr>)"

section \<open>Target selection (member handler)\<close>

definition errBadPath :: goerror where
  "errBadPath = GoError ''unable to determine Roblox upstream from path''"

definition errNoUpstreamTarget :: goerror where
  "errNoUpstreamTarget = GoError ''no upstream target available''"

definition resolveRobloxTarget :: "string \<Rightarrow> goerror + (string \<times> string)" where
  "resolveRobloxTarget path =
     (let segments = Split path (CHR ''/'')
      in if length segments < 2 \<or> segments ! 1 = [] then Inl errBadPath
         else
           let domain = segments ! 1;
               remaining = Join (drop 2 segments) ''/'';
               remaining' = (if remaining = [] then ''/'' else ''/'' @ remaining)
           in Inr (domain @ ''.roblox.com'', remaining'))"

text \<open>
  \<open>chooseTarget\<close> reads only \<open>h.targets\<close> of the handler. Its three steps are named:
  the routing key, the index (with Go's bounds check on \<open>h.targets[idx]\<close>), and the
  switch on the kind of the chosen target.
\<close>

definition routingKey :: "string \<Rightarrow> string \<Rightarrow> string" where
  "routingKey path rawQuery = (if rawQuery \<noteq> [] then path @ ''?'' @ rawQuery else path)"

definition targetURL :: "MemberTarget \<Rightarrow> string \<Rightarrow> string \<Rightarrow> (goerror + URL) outcome" where
  "targetURL target path rawQuery =
     (case Kind target of
        MemberTargetDirect \<Rightarrow>
          (case resolveRobloxTarget path of
             Inl err \<Rightarrow> Returns (Inl err)
           | Inr (host, rewritten) \<Rightarrow>
               Returns (Inr \<lparr>Scheme = ''https'', Host = host, Path = rewritten,
                              RawQuery = rawQuery\<rparr>))
      | MemberTargetStatic \<Rightarrow>
          (case Base target of
             None \<Rightarrow> Panics NilDereference
           | Some base \<Rightarrow>
               Returns (Inr (ResolveReference base
                 \<lparr>Scheme = [], Host = [], Path = path, RawQuery = rawQuery\<rparr>)))
      | MemberTargetUnknown \<Rightarrow> Returns (Inl errNoUpstreamTarget))"

definition chooseTarget :: "MemberTarget list \<Rightarrow> string \<Rightarrow> string \<Rightarrow> (goerror + URL) outcome" where
  "chooseTarget targets path rawQuery =
     (if length targets = 0 then Returns (Inl errNoUpstreamTarget)
      else
        case ConsistentIndex (routingKey path rawQuery) (of_nat (length targets)) of
          Panics p \<Rightarrow> Panics p
        | Returns idx \<Rightarrow>
            if sint idx < 0 \<or> nat (sint idx) \<ge> length targets then Panics IndexOutOfRange
            else targetURL (targets ! nat (sint idx)) path rawQuery)"

section \<open>Trimming and query parsing (strings, net/url)\<close>














section \<open>HTTP headers, requests and responses (net/http)\<close>

text \<open>
  \<open>http.Header\<close> is a map from keys to lists of values; it is an association list here,
  in the order the map is ranged over. \<open>Add\<close>, \<open>Set\<close>, \<open>Get\<close> and \<open>Del\<close> work on the
  canonical form of the key (\<open>textproto.CanonicalMIMEHeaderKey\<close>): a key made of token
  bytes gets an upper-case first letter and an upper-case letter after each hyphen, the
  other letters in lower case; a key with any other byte is left as it is.
\<close>

type_synonym Header = "(string \<times> string list) list"

definition validHeaderFieldByte :: "char \<Rightarrow> bool" where
  "validHeaderFieldByte c =
     (let n = (of_char c :: nat)
      in (48 \<le> n \<and> n \<le> 57) \<or> (65 \<le> n \<and> n \<le> 90) \<or> (97 \<le> n \<and> n \<le> 122)
         \<or> n \<in> set [33, 35, 36, 37, 38, 39, 42, 43, 45, 46, 94, 95, 96, 124, 126])"

fun canonicalBytes :: "bool \<Rightarrow> string \<Rightarrow> string" where
  "canonicalBytes upper [] = []"
| "canonicalBytes upper (c # cs) =
     (let n = (of_char c :: nat);
          c' = (if upper \<and> 97 \<le> n \<and> n \<le> 122 then char_of (n - 32)
                else if \<not> upper \<and> 65 \<le> n \<and> n \<le> 90 then char_of (n + 32)
                else c)
      in c' # canonicalBytes (c' = CHR ''-'') cs)"

definition CanonicalMIMEHeaderKey :: "string \<Rightarrow> string" where
  "CanonicalMIMEHeaderKey s = (if list_all validHeaderFieldByte s then canonicalBytes True s else s)"

definition Header_Add :: "Header \<Rightarrow> string \<Rightarrow> string \<Rightarrow> Header" where
  "Header_Add h key v =
     (let k = CanonicalMIMEHeaderKey key
      in case map_of h k of
           None \<Rightarrow> h @ [(k, [v])]
         | Some vs \<Rightarrow> AList.update k (vs @ [v]) h)"

definition Header_Set :: "Header \<Rightarrow> string \<Rightarrow> string \<Rightarrow> Header" where
  "Header_Set h key v = AList.update (CanonicalMIMEHeaderKey key) [v] h"

definition Header_Get :: "Header \<Rightarrow> string \<Rightarrow> string" where
  "Header_Get h key =
     (case map_of h (CanonicalMIMEHeaderKey key) of Some (v # vs) \<Rightarrow> v | _ \<Rightarrow> [])"

definition Header_Del :: "Header \<Rightarrow> string \<Rightarrow> Header" where
  "Header_Del h key = AList.delete (CanonicalMIMEHeaderKey key) h"

text \<open>
  \<open>http.Request\<close> with the fields the handler and the forwarder read. \<open>Body\<close> is the
  stream handed on as it is; \<open>TLS\<close> tells whether the pointer is non-nil.
\<close>

record Request =
  Method :: string
  Req_URL :: URL
  Req_Header :: Header
  Req_Body :: "bytes option"
  ContentLength :: int
  TransferEncoding :: "string list"
  Trailer :: Header
  Req_Host :: string
  RemoteAddr :: string
  TLS :: bool

text \<open>
  \<open>http.Response\<close>: the body is the bytes the stream delivers and the error that ends
  it, if any (\<open>None\<close> is a clean end of file).
\<close>

record Response =
  StatusCode :: nat
  Resp_Header :: Header
  Resp_Body :: "bytes \<times> goerror option"

text \<open>
  \<open>http.ResponseWriter\<close>: the header map, the status once \<open>WriteHeader\<close> has been
  called, and the bytes written. A second \<open>WriteHeader\<close> is ignored, and a \<open>Write\<close>
  before any \<open>WriteHeader\<close> sends status 200. A change of the header map after
  \<open>WriteHeader\<close> stays in the map, though it is no longer sent.
\<close>

record ResponseWriter =
  rw_Header :: Header
  rw_Status :: "nat option"
  rw_Body :: bytes

definition WriteHeader :: "ResponseWriter \<Rightarrow> nat \<Rightarrow> ResponseWriter" where
  "WriteHeader w code = (if rw_Status w = None then w\<lparr>rw_Status := Some code\<rparr> else w)"

definition Write :: "ResponseWriter \<Rightarrow> bytes \<Rightarrow> ResponseWriter" where
  "Write w p = (let w1 = WriteHeader w 200 in w1\<lparr>rw_Body := rw_Body w1 @ p\<rparr>)"

text \<open>
  What the forwarder takes from the standard library without this development looking
  inside: \<open>http.NewRequestWithContext\<close> (it refuses an invalid method or target URL, and
  otherwise returns a request for that method, URL and body) and \<open>net.SplitHostPort\<close>.
\<close>

record stdlib =
  NewRequestWithContext :: "string \<Rightarrow> URL \<Rightarrow> bytes option \<Rightarrow> goerror + Request"
  SplitHostPort :: "string \<Rightarrow> goerror + (string \<times> string)"

section \<open>The forwarder (internal/proxy)\<close>

definition hopHeaders :: "string list" where
  "hopHeaders =
     [''Connection'', ''Proxy-Connection'', ''Keep-Alive'', ''Proxy-Authenticate'',
      ''Proxy-Authorization'', ''Te'', ''Trailer'', ''Transfer-Encoding'', ''Upgrade'']"

definition copyHeaders :: "Header \<Rightarrow> Header \<Rightarrow> Header" where
  "copyHeaders dst src =
     foldl (\<lambda>d (k, vv). foldl (\<lambda>d' v. Header_Add d' k v) d vv) dst src"

definition cloneHeader :: "Header \<Rightarrow> Header" where
  "cloneHeader src = (if length src = 0 then [] else map (\<lambda>(k, vv). (k, vv)) src)"

definition schemeFromRequest :: "Request \<Rightarrow> string" where
  "schemeFromRequest r =
     (if TLS r then ''https''
      else if Header_Get (Req_Header r) ''X-Forwarded-Proto'' \<noteq> []
        then Header_Get (Req_Header r) ''X-Forwarded-Proto''
      else if Scheme (Req_URL r) \<noteq> [] then Scheme (Req_URL r)
      else ''http'')"

definition setForwardedHeaders :: "stdlib \<Rightarrow> Header \<Rightarrow> Request \<Rightarrow> Header" where
  "setForwardedHeaders lib header r =
     (let clientIP = (case SplitHostPort lib (RemoteAddr r) of
                        Inl err \<Rightarrow> RemoteAddr r
                      | Inr (host, port) \<Rightarrow> host);
          h1 = (if clientIP \<noteq> [] then
                  (let prior = Header_Get header ''X-Forwarded-For''
                   in if prior = [] then Header_Set header ''X-Forwarded-For'' clientIP
                      else Header_Set header ''X-Forwarded-For'' (prior @ '', '' @ clientIP))
                else header);
          h2 = (if Header_Get (Req_Header r) ''X-Forwarded-Proto'' = []
                then Header_Set h1 ''X-Forwarded-Proto'' (schemeFromRequest r)
                else h1)
      in Header_Set h2 ''X-Forwarded-Host'' (Req_Host r))"

definition cloneRequestWithURL :: "stdlib \<Rightarrow> Request \<Rightarrow> URL \<Rightarrow> goerror + Request" where
  "cloneRequestWithURL lib r target =
     (case NewRequestWithContext lib (Method r) target (Req_Body r) of
        Inl err \<Rightarrow> Inl err
      | Inr upstreamReq \<Rightarrow>
          let h1 = copyHeaders (Req_Header upstreamReq) (Req_Header r);
              h2 = foldl Header_Del h1 hopHeaders;
              h3 = setForwardedHeaders lib h2 r
          in Inr (upstreamReq\<lparr>Req_Header := h3,
                                ContentLength := ContentLength r,
                                TransferEncoding := TransferEncoding r,
                                Trailer := cloneHeader (Trailer r),
                                Req_Host := Host target\<rparr>))"

section \<open>The world outside the handler\<close>

text \<open>
  The state \<open>'x\<close> stands for everything outside the process: the contents of the cache
  store and the upstream servers. A fetch closure and the HTTP client run on it and may
  change it. The handler's own effects are kept in a \<open>world\<close>: the outside state, the
  reading of the clock, the calls made so far (cache, fetch, flight and log calls, in
  order) and the goroutines started with \<open>go\<close>, each with the variables it captured.
\<close>

type_synonym 'x fetch = "'x \<Rightarrow> (goerror + bytes) \<times> 'x"

datatype event =
    CacheGet string
  | CacheSet string bytes int
  | FetchCall
  | FlightDo string
  | Log string string

datatype 'x goroutine = Refresh string "'x fetch"

record 'x world =
  ext :: 'x
  now :: int
  events :: "event list"
  goroutines :: "'x goroutine list"

definition emit :: "'x world \<Rightarrow> event \<Rightarrow> 'x world" where
  "emit w e = w\<lparr>events := events w @ [e]\<rparr>"

text \<open>
  \<open>Forwarder.Do\<close>. The client is a pointer (\<open>None\<close> is nil); \<open>Client.Do\<close> runs on the
  outside state. \<open>io.CopyBuffer\<close> writes the bytes the upstream body delivers and
  returns the error that ended the stream, if any.
\<close>

record 'x Forwarder =
  Client :: "('x \<Rightarrow> Request \<Rightarrow> (goerror + Response) \<times> 'x) option"

definition Forwarder_Do ::
  "stdlib \<Rightarrow> 'x Forwarder \<Rightarrow> 'x world \<Rightarrow> ResponseWriter \<Rightarrow> Request \<Rightarrow> URL
     \<Rightarrow> goerror option \<times> ResponseWriter \<times> 'x world" where
  "Forwarder_Do lib f w0 w r target =
     (case Client f of
        None \<Rightarrow> (Some (GoError ''forwarder client is nil''), w, w0)
      | Some client_Do \<Rightarrow>
          let w1 = emit w0 (Log ''INFO'' ''forwarding request'')
          in (case cloneRequestWithURL lib r target of
                Inl err \<Rightarrow> (Some err, w, w1)
              | Inr upstreamReq \<Rightarrow>
                  (case client_Do (ext w1) upstreamReq of
                     (Inl err, x) \<Rightarrow> (Some err, w, w1\<lparr>ext := x\<rparr>)
                   | (Inr reqResp, x) \<Rightarrow>
                       let h1 = copyHeaders (rw_Header w) (Resp_Header reqResp);
                           h2 = foldl Header_Del h1 hopHeaders;
                           wa = WriteHeader (w\<lparr>rw_Header := h2\<rparr>) (StatusCode reqResp);
                           wb = (if fst (Resp_Body reqResp) = [] then wa
                                 else Write wa (fst (Resp_Body reqResp)))
                       in (snd (Resp_Body reqResp), wb, w1\<lparr>ext := x\<rparr>))))"

section \<open>The cache store (internal/cache)\<close>

record Entry =
  Payload :: bytes
  StoredAt :: int

text \<open>
  \<open>cache.Store\<close> is an interface: a record of its two methods. \<open>Get\<close> returns Go's
  triple (entry, found, error); \<open>Set\<close> takes key, payload and TTL and may change the
  outside state.
\<close>

record 'x Store =
  Store_Get :: "'x \<Rightarrow> string \<Rightarrow> Entry \<times> bool \<times> goerror option"
  Store_Set :: "'x \<Rightarrow> string \<Rightarrow> bytes \<Rightarrow> int \<Rightarrow> goerror option \<times> 'x"

section \<open>Instants and durations (package time)\<close>

text \<open>
  An instant is a count of nanoseconds; a \<open>time.Duration\<close> is an int64 count of
  nanoseconds. \<open>Time.Sub\<close> gives the difference of two instants when it fits a
  Duration, and the largest or the smallest Duration when it does not. \<open>time.Since t\<close>
  is \<open>time.Now().Sub(t)\<close>, with the reading of the clock passed in.
\<close>

definition maxDuration :: int where
  "maxDuration = 2 ^ 63 - 1"

definition minDuration :: int where
  "minDuration = - (2 ^ 63)"

definition Time_Sub :: "int \<Rightarrow> int \<Rightarrow> int" where
  "Time_Sub t u =
     (let d = t - u
      in if minDuration \<le> d \<and> d \<le> maxDuration then d
         else if t < u then minDuration
         else maxDuration)"

definition Since :: "int \<Rightarrow> int \<Rightarrow> int" where
  "Since clockReading t = Time_Sub clockReading t"

section \<open>The member handler\<close>

text \<open>
  Modelled from the spec: the configuration type (package \<open>internal/config\<close>), which is
  not among the sources. \<open>Config\<close> has the fields the handler reads, named as the
  handler names them: the per-call timeout, the stale-after threshold that governs the
  background refresh, and the cache TTL (durations, in nanoseconds).
\<close>

record Config =
  RequestTimeout :: int
  BackgroundRefreshAfter :: int
  CacheTTL :: int

text \<open>
  The handler. \<open>fetchUserPayload\<close> and \<open>fetchSearchPayload\<close> (upstream calls and
  JSON coding) are taken as fields: for a user id or a query they give the fetch closure.
  The logger shows in the events of the world, the flight group in \<open>sgroup_Do\<close>.
\<close>

record 'x Handler =
  cfg :: Config
  cache :: "'x Store"
  forwarder :: "'x Forwarder"
  targets :: "MemberTarget list"
  fetchUserPayload :: "string \<Rightarrow> 'x fetch"
  fetchSearchPayload :: "string \<Rightarrow> 'x fetch"

subsection \<open>The coalescing cache engine\<close>

text \<open>
  \<open>singleflight.Group.Do\<close> (golang.org/x/sync) when no other call for the key is in
  flight: the function runs in the caller and its result is returned. The merging of
  overlapping callers is a matter of goroutine scheduling and is not part of this
  sequential model.
\<close>

definition sgroup_Do ::
  "'x world \<Rightarrow> string \<Rightarrow> ('x world \<Rightarrow> (goerror + bytes) \<times> 'x world)
     \<Rightarrow> (goerror + bytes) \<times> 'x world" where
  "sgroup_Do w key fn = fn (emit w (FlightDo key))"

definition storeWithTTL ::
  "'x Handler \<Rightarrow> 'x world \<Rightarrow> string \<Rightarrow> bytes \<Rightarrow> goerror option \<times> 'x world" where
  "storeWithTTL h w key payload =
     (case Store_Set (cache h) (ext w) key payload (CacheTTL (cfg h)) of
        (err, x) \<Rightarrow> (err, (emit w (CacheSet key payload (CacheTTL (cfg h))))\<lparr>ext := x\<rparr>))"

text \<open>The function literal that \<open>launchRefresh\<close> hands to \<open>sgroup.Do\<close>.\<close>

definition launchRefresh_flight ::
  "'x Handler \<Rightarrow> string \<Rightarrow> 'x fetch \<Rightarrow> 'x world \<Rightarrow> (goerror + bytes) \<times> 'x world" where
  "launchRefresh_flight h key fetch w =
     (case fetch (ext w) of
        (Inl err, x) \<Rightarrow> (Inl err, (emit w FetchCall)\<lparr>ext := x\<rparr>)
      | (Inr payload, x) \<Rightarrow>
          (case storeWithTTL h ((emit w FetchCall)\<lparr>ext := x\<rparr>) key payload of
             (Some err, w') \<Rightarrow> (Inr payload, emit w' (Log ''WARN'' ''refresh cache store failed''))
           | (None, w') \<Rightarrow> (Inr payload, w')))"

text \<open>
  \<open>launchRefresh\<close> starts a goroutine and returns. \<open>refresh_run\<close> is the body of that
  goroutine, run with the captured key and fetch closure.
\<close>

definition launchRefresh :: "'x Handler \<Rightarrow> 'x world \<Rightarrow> string \<Rightarrow> 'x fetch \<Rightarrow> 'x world" where
  "launchRefresh h w key fetch = w\<lparr>goroutines := goroutines w @ [Refresh key fetch]\<rparr>"

definition refresh_run :: "'x Handler \<Rightarrow> 'x world \<Rightarrow> 'x goroutine \<Rightarrow> 'x world" where
  "refresh_run h w g =
     (case g of Refresh key fetch \<Rightarrow>
        (case sgroup_Do w (key @ '':refresh'') (launchRefresh_flight h key fetch) of
           (Inl err, w') \<Rightarrow> emit w' (Log ''DEBUG'' ''background refresh failed'')
         | (Inr res, w') \<Rightarrow> w'))"

text \<open>The function literal that \<open>readThroughCache\<close> hands to \<open>sgroup.Do\<close>.\<close>

definition readThroughCache_flight ::
  "'x Handler \<Rightarrow> string \<Rightarrow> 'x fetch \<Rightarrow> 'x world \<Rightarrow> (goerror + bytes) \<times> 'x world" where
  "readThroughCache_flight h key fetch w =
     (case fetch (ext w) of
        (Inl err, x) \<Rightarrow> (Inl err, (emit w FetchCall)\<lparr>ext := x\<rparr>)
      | (Inr payload, x) \<Rightarrow>
          (case storeWithTTL h ((emit w FetchCall)\<lparr>ext := x\<rparr>) key payload of
             (Some err, w') \<Rightarrow> (Inr payload, emit w' (Log ''WARN'' ''cache store failed''))
           | (None, w') \<Rightarrow> (Inr payload, w')))"

definition readThroughCache ::
  "'x Handler \<Rightarrow> 'x world \<Rightarrow> string \<Rightarrow> 'x fetch \<Rightarrow> (goerror + bytes) \<times> 'x world" where
  "readThroughCache h w key fetch =
     (case Store_Get (cache h) (ext w) key of
        (entry, ok, err) \<Rightarrow>
          let w1 = emit w (CacheGet key)
          in (case err of
                Some e \<Rightarrow> (Inl e, w1)
              | None \<Rightarrow>
                  if ok then
                    (let age = Since (now w1) (StoredAt entry);
                         w2 = (if age > BackgroundRefreshAfter (cfg h)
                               then launchRefresh h w1 key fetch else w1)
                     in (Inr (Payload entry), w2))
                  else sgroup_Do w1 key (readThroughCache_flight h key fetch)))"

subsection \<open>Responses\<close>








subsection \<open>Dispatch\<close>




definition avatarCacheKey :: "string \<Rightarrow> string" where
  "avatarCacheKey userID = ''roblox:avatar:'' @ userID"







section \<open>Well-formed error bodies\<close>













section \<open>Example objects\<close>

text \<open>
  A small outside world for the examples: an in-memory store with a clock (the entry it
  writes is stamped with the time of the write, as \<open>redisstore.Store.Set\<close> stamps
  \<open>time.Now\<close>), a store whose reads fail, and an upstream that fails on its first
  call and answers from the second on.
\<close>

record outside =
  cached :: "(string \<times> Entry) list"
  clock :: int
  upstreamCalls :: nat

definition memStore :: "outside Store" where
  "memStore =
     \<lparr>Store_Get = (\<lambda>x key. case map_of (cached x) key of
                      None \<Rightarrow> (\<lparr>Payload = [], StoredAt = 0\<rparr>, False, None)
                    | Some e \<Rightarrow> (e, True, None)),
      Store_Set = (\<lambda>x key payload ttl.
                    (None, x\<lparr>cached := AList.update key
                                 \<lparr>Payload = payload, StoredAt = clock x\<rparr> (cached x)\<rparr>))\<rparr>"

definition brokenStore :: "outside Store" where
  "brokenStore =
     \<lparr>Store_Get = (\<lambda>x key. (\<lparr>Payload = [], StoredAt = 0\<rparr>, False,
                             Some (GoError ''redis get: i/o timeout''))),
      Store_Set = (\<lambda>x key payload ttl. (Some (GoError ''redis set: i/o timeout''), x))\<rparr>"

definition flakyFetch :: "outside fetch" where
  "flakyFetch x =
     (if upstreamCalls x = 0
      then (Inl (GoError ''roblox request failed: 503 Service Unavailable''),
            x\<lparr>upstreamCalls := 1\<rparr>)
      else (Inr ''{}'', x\<lparr>upstreamCalls := upstreamCalls x + 1\<rparr>))"

definition exampleConfig :: Config where
  "exampleConfig = \<lparr>RequestTimeout = 5000000000, BackgroundRefreshAfter = 60000000000,
                     CacheTTL = 300000000000\<rparr>"

definition exampleHandler :: "outside Store \<Rightarrow> outside Handler" where
  "exampleHandler st =
     \<lparr>cfg = exampleConfig, cache = st, forwarder = \<lparr>Client = None\<rparr>,
      targets = [\<lparr>Kind = MemberTargetDirect, Base = None\<rparr>],
      fetchUserPayload = (\<lambda>userID. flakyFetch),
      fetchSearchPayload = (\<lambda>query. flakyFetch)\<rparr>"

definition exampleWorld :: "(string \<times> Entry) list \<Rightarrow> int \<Rightarrow> outside world" where
  "exampleWorld entries t =
     \<lparr>ext = \<lparr>cached = entries, clock = t, upstreamCalls = 0\<rparr>, now = t, events = [],
      goroutines = []\<rparr>"

definition exampleLib :: stdlib where
  "exampleLib =
     \<lparr>NewRequestWithContext = (\<lambda>m u b. Inr
        \<lparr>Method = m, Req_URL = u, Req_Header = [], Req_Body = b, ContentLength = 0,
         TransferEncoding = [], Trailer = [], Req_Host = Host u, RemoteAddr = [],
         TLS = False\<rparr>),
      SplitHostPort = (\<lambda>s. Inr (takeWhile (\<lambda>c. c \<noteq> CHR '':'') s,
                                 drop 1 (dropWhile (\<lambda>c. c \<noteq> CHR '':'') s)))\<rparr>"

definition freshWriter :: ResponseWriter where
  "freshWriter = \<lparr>rw_Header = [], rw_Status = None, rw_Body = []\<rparr>"

definition exampleRequest :: "string \<Rightarrow> string \<Rightarrow> Header \<Rightarrow> Request" where
  "exampleRequest path rawQuery hdr =
     \<lparr>Method = ''GET'',
      Req_URL = \<lparr>Scheme = [], Host = [], Path = path, RawQuery = rawQuery\<rparr>,
      Req_Header = hdr, Req_Body = None, ContentLength = 0, TransferEncoding = [],
      Trailer = [], Req_Host = ''proxy.example'', RemoteAddr = ''10.0.0.7:51000'',
      TLS = False\<rparr>"

text \<open>
  A header map that carries every hop-by-hop header beside an end-to-end one, an upstream
  that answers with such a map, and two error values: one whose message quotes a URL, one
  whose message has a backslash.
\<close>

definition hopfulHeader :: Header where
  "hopfulHeader =
     [(''Accept'', [''application/json'']), (''Connection'', [''keep-alive, Upgrade'']),
      (''Proxy-Connection'', [''keep-alive'']), (''Keep-Alive'', [''timeout=5'']),
      (''Proxy-Authenticate'', [''Basic'']), (''Proxy-Authorization'', [''Basic abc'']),
      (''Te'', [''trailers'']), (''Trailer'', [''Expires'']),
      (''Transfer-Encoding'', [''chunked'']), (''Upgrade'', [''websocket''])]"

definition exampleUpstream :: "outside \<Rightarrow> Request \<Rightarrow> (goerror + Response) \<times> outside" where
  "exampleUpstream x req =
     (Inr \<lparr>StatusCode = 200, Resp_Header = hopfulHeader, Resp_Body = (''ok'', None)\<rparr>,
      x\<lparr>upstreamCalls := upstreamCalls x + 1\<rparr>)"

definition exampleTarget :: URL where
  "exampleTarget = \<lparr>Scheme = ''https'', Host = ''users.roblox.com'', Path = ''/v1/users/5'',
                     RawQuery = []\<rparr>"



text \<open>
  A target list longer than a \<open>uint32\<close> can count: \<open>2^32 + 1\<close> targets, all Direct
  but the one at index 3058854337, which is the Static target \<open>http://cluster-a\<close>.
\<close>

definition manyTargets :: "MemberTarget list" where
  "manyTargets =
     (replicate 4294967297 \<lparr>Kind = MemberTargetDirect, Base = None\<rparr>)
       [3058854337 := \<lparr>Kind = MemberTargetStatic,
                         Base = Some \<lparr>Scheme = ''http'', Host = ''cluster-a'', Path = [],
                                      RawQuery = []\<rparr>\<rparr>]"



section \<open>ConsistentIndex: range and totality\<close>

lemma ConsistentIndex_nonpositive:
  "sint buckets \<le> 0 \<Longrightarrow> ConsistentIndex key buckets = Returns 0"
  by (simp add: ConsistentIndex_def)

text \<open>
  C10. \<open>ConsistentIndex\<close> is claimed to return for every bucket count. The bucket count
  \<open>4294967296 = 2^32\<close> is positive, so it passes the guard, and its conversion to
  \<open>uint32\<close> is 0: the remainder divides by zero and the call panics, whatever the key.
\<close>

theorem ConsistentIndex_panics_at_2_32:
  "sint (4294967296 :: go_int) > 0 \<and>
   ConsistentIndex key 4294967296 = Panics DivideByZero"
  by (simp add: ConsistentIndex_def)

lemma sint_of_nat_small:
  assumes "n < 2 ^ 63"
  shows "sint (of_nat n :: go_int) = int n"
proof -
  have "int n < 2 ^ 63" using assms by (simp add: of_nat_less_numeral_power_cancel_iff)
  then have "signed_take_bit 63 (int n) = int n"
    by (intro signed_take_bit_int_eq_self) auto
  then show ?thesis by (simp add: signed_of_nat)
qed

lemma ucast_of_nat_32:
  "(ucast (of_nat n :: go_int) :: uint32) = of_nat n"
proof -
  have "(n mod 2 ^ 64) mod 2 ^ 32 = n mod (2 ^ 32 :: nat)"
    by (rule mod_mod_cancel) (simp add: dvd_def)
  then show ?thesis
    by (simp add: word_unat_eq_iff unsigned_ucast_eq unat_of_nat take_bit_eq_mod)
qed

lemma of_nat_32_nonzero:
  assumes "0 < n" "n < 2 ^ 32"
  shows "(of_nat n :: uint32) \<noteq> 0"
proof -
  have "unat (of_nat n :: uint32) = n" using assms by (simp add: unat_of_nat)
  then show ?thesis using assms by (metis unat_0 less_numeral_extra(3))
qed

text \<open>
  For a bucket count from 1 to \<open>2^32 - 1\<close> the conversion to \<open>uint32\<close> loses nothing:
  the index is the hash modulo the count.
\<close>

lemma ConsistentIndex_small:
  assumes "0 < n" "n < 2 ^ 32"
  shows "ConsistentIndex key (of_nat n) = Returns (of_nat (unat (fnv_Write New32a key) mod n))"
proof -
  have n63: "n < 2 ^ 63" using assms by simp
  have pos: "\<not> sint (of_nat n :: go_int) \<le> 0"
    using assms by (simp add: sint_of_nat_small [OF n63])
  have un: "unat (of_nat n :: uint32) = n" using assms by (simp add: unat_of_nat)
  have "(ucast (fnv_Write New32a key mod of_nat n :: uint32) :: go_int)
          = of_nat (unat (fnv_Write New32a key) mod n)"
    using of_nat_unat [of "fnv_Write New32a key mod of_nat n :: uint32", where 'a = go_int]
    by (simp add: unat_mod un)
  then show ?thesis
    using pos of_nat_32_nonzero [OF assms]
    by (simp add: ConsistentIndex_def Let_def Sum32_def ucast_of_nat_32)
qed

text \<open>
  Whenever \<open>ConsistentIndex\<close> returns for a positive bucket count, the index is within
  the count: the panic is the only way it fails.
\<close>

lemma ucast_32_64_sint:
  "sint (ucast (w :: uint32) :: go_int) = int (unat w)"
proof -
  have "unat w < 2 ^ 32" using unsigned_less [of w, where 'a = nat] by simp
  then have "unat w < 2 ^ 63" by simp
  then have "sint (of_nat (unat w) :: go_int) = int (unat w)" by (rule sint_of_nat_small)
  then show ?thesis by simp
qed

lemma unat_ucast_64_32_le:
  assumes "0 < sint (b :: go_int)"
  shows "int (unat (ucast b :: uint32)) \<le> sint b"
proof -
  define n where "n = nat (sint b)"
  have n: "int n = sint b" using assms by (simp add: n_def)
  have "(of_int (sint b) :: go_int) = b" by simp
  then have b: "b = of_nat n" unfolding n [symmetric] by simp
  have "unat (ucast b :: uint32) = n mod 2 ^ 32"
    unfolding b ucast_of_nat_32 by (simp add: unat_of_nat)
  also have "\<dots> \<le> n" by (rule mod_less_eq_dividend)
  finally show ?thesis using n by linarith
qed

lemma ConsistentIndex_in_range:
  assumes "ConsistentIndex key buckets = Returns i" and "0 < sint buckets"
  shows "0 \<le> sint i \<and> sint i < sint buckets"
proof -
  let ?d = "ucast buckets :: uint32"
  let ?h = "fnv_Write New32a key"
  from assms have d: "?d \<noteq> 0" and i: "i = ucast (?h mod ?d)"
    by (auto simp: ConsistentIndex_def Let_def Sum32_def split: if_splits)
  have "unat (?h mod ?d) < unat ?d"
    using d by (simp add: unat_mod unat_gt_0)
  then have "int (unat (?h mod ?d)) < sint buckets"
    using unat_ucast_64_32_le [OF assms(2)] by linarith
  then show ?thesis
    by (simp add: i ucast_32_64_sint)
qed

section \<open>Target selection\<close>

text \<open>
  Target selection is a function of the target list, the path and the raw query alone
  (\<open>chooseTarget\<close> reads nothing else), so equal inputs give equal targets. For a
  non-empty list of \<open>N\<close> targets, \<open>N\<close> below \<open>2^32\<close>, the index handed back by
  \<open>ConsistentIndex\<close> for the routing key (the path, with \<open>?\<close> and the query when the
  query is not empty) is the 32-bit FNV-1a hash of the key modulo \<open>N\<close>, it is within the
  list, and the result of \<open>chooseTarget\<close> is the URL built from the target at that index.
\<close>

lemma chooseTarget_index:
  assumes "ts \<noteq> []" and "length ts < 2 ^ 32"
  shows "routingKey path rawQuery = (if rawQuery = [] then path else path @ ''?'' @ rawQuery)
    \<and> ConsistentIndex (routingKey path rawQuery) (of_nat (length ts))
        = Returns (of_nat (unat (Sum32 (fnv_Write New32a (routingKey path rawQuery)))
                            mod length ts))
    \<and> chooseTarget ts path rawQuery
        = targetURL (ts ! (unat (Sum32 (fnv_Write New32a (routingKey path rawQuery)))
                                mod length ts)) path rawQuery"
proof -
  define n where "n = length ts"
  define i where "i = unat (fnv_Write New32a (routingKey path rawQuery)) mod n"
  have n: "0 < n" "n < 2 ^ 32" using assms by (simp_all add: n_def)
  have i: "i < n" using n by (simp add: i_def)
  then have "i < 2 ^ 63" using n by simp
  then have si: "sint (of_nat i :: go_int) = int i" by (rule sint_of_nat_small)
  have ci: "ConsistentIndex (routingKey path rawQuery) (of_nat n) = Returns (of_nat i)"
    unfolding i_def by (rule ConsistentIndex_small [OF n])
  have "chooseTarget ts path rawQuery = targetURL (ts ! i) path rawQuery"
    using n i ci si by (simp add: chooseTarget_def flip: n_def)
  then show ?thesis
    using ci by (simp add: n_def i_def Sum32_def routingKey_def)
qed

lemma fnv_example: "fnv_Write New32a ''/users/v1/users/5?a=1'' = 2956627071"
  by (simp add: New32a_def offset32_def prime32_def)

lemma resolve_example:
  "resolvePath [] ''/users/v1/users/5'' = ''/users/v1/users/5''"
  by (simp add: resolvePath_def resolvePath_step_def Let_def)

lemma chooseTarget_index_example:
  "chooseTarget
     [\<lparr>Kind = MemberTargetStatic,
        Base = Some \<lparr>Scheme = ''http'', Host = ''cluster-a'', Path = [], RawQuery = []\<rparr>\<rparr>,
      \<lparr>Kind = MemberTargetDirect, Base = None\<rparr>,
      \<lparr>Kind = MemberTargetDirect, Base = None\<rparr>]
     ''/users/v1/users/5'' ''a=1''
   = Returns (Inr \<lparr>Scheme = ''http'', Host = ''cluster-a'', Path = ''/users/v1/users/5'',
                    RawQuery = ''a=1''\<rparr>)"
proof -
  let ?ts = "[\<lparr>Kind = MemberTargetStatic,
        Base = Some \<lparr>Scheme = ''http'', Host = ''cluster-a'', Path = [], RawQuery = []\<rparr>\<rparr>,
      \<lparr>Kind = MemberTargetDirect, Base = None\<rparr>,
      \<lparr>Kind = MemberTargetDirect, Base = None\<rparr>]"
  have key: "routingKey ''/users/v1/users/5'' ''a=1'' = ''/users/v1/users/5?a=1''"
    by (simp add: routingKey_def)
  have idx: "unat (Sum32 (fnv_Write New32a ''/users/v1/users/5?a=1'')) mod length ?ts = 0"
    by (simp add: Sum32_def fnv_example del: fnv_Write.simps)
  have "?ts \<noteq> []" and "length ?ts < 2 ^ 32" by simp_all
  from chooseTarget_index [OF this, of "''/users/v1/users/5''" "''a=1''"]
  have "chooseTarget ?ts ''/users/v1/users/5'' ''a=1''
          = targetURL (?ts ! 0) ''/users/v1/users/5'' ''a=1''"
    unfolding key idx by (elim conjE)
  then show ?thesis
    by (simp add: targetURL_def ResolveReference_def resolve_example)
qed

lemma fnv_users_5: "fnv_Write New32a ''/users/v1/users/5'' = 3058854337"
  by (simp add: New32a_def offset32_def prime32_def)

lemma ConsistentIndex_2_32_plus_1: "ConsistentIndex key 4294967297 = Returns 0"
proof -
  have d: "(ucast (4294967297 :: go_int) :: uint32) = 1" by simp
  have p: "\<not> sint (4294967297 :: go_int) \<le> 0" by simp
  show ?thesis
    unfolding ConsistentIndex_def Let_def d using p by simp
qed

lemma ConsistentIndex_2_32: "ConsistentIndex key 4294967296 = Panics DivideByZero"
  by (simp add: ConsistentIndex_def)

lemma manyTargets_length: "length manyTargets = 4294967297"
  by (simp add: manyTargets_def)

lemma manyTargets_first: "manyTargets ! 0 = \<lparr>Kind = MemberTargetDirect, Base = None\<rparr>"
  by (simp add: manyTargets_def)

lemma manyTargets_hashed:
  "manyTargets ! 3058854337
     = \<lparr>Kind = MemberTargetStatic,
        Base = Some \<lparr>Scheme = ''http'', Host = ''cluster-a'', Path = [], RawQuery = []\<rparr>\<rparr>"
  by (simp add: manyTargets_def)

text \<open>
  C4. The selected index is claimed to be the hash of the routing key modulo the number
  \<open>N\<close> of targets, for every non-empty list. \<open>ConsistentIndex\<close> takes the remainder
  by \<open>uint32(buckets)\<close>, which is \<open>N\<close> only below \<open>2^32\<close>. The list \<open>manyTargets\<close>
  has \<open>2^32 + 1\<close> targets. The hash of the key \<open>/users/v1/users/5\<close> is 3058854337 and
  so is its remainder modulo \<open>2^32 + 1\<close>: the claimed target is the one at index
  3058854337, the Static \<open>http://cluster-a\<close>. The bucket count converts to the
  \<open>uint32\<close> 1 and the index is 0 for every key: the request goes to the Direct target
  at index 0, that is to \<open>https://users.roblox.com/v1/users/5\<close>. With \<open>2^32\<close> targets
  the count converts to 0 and \<open>chooseTarget\<close> panics.
\<close>

theorem chooseTarget_index_beyond_uint32:
  "length manyTargets = 4294967297
   \<and> unat (Sum32 (fnv_Write New32a (routingKey ''/users/v1/users/5'' []))) mod length manyTargets
       = 3058854337
   \<and> targetURL (manyTargets ! 3058854337) ''/users/v1/users/5'' []
       = Returns (Inr \<lparr>Scheme = ''http'', Host = ''cluster-a'', Path = ''/users/v1/users/5'',
                        RawQuery = []\<rparr>)
   \<and> ConsistentIndex (routingKey ''/users/v1/users/5'' []) (of_nat (length manyTargets))
       = Returns 0
   \<and> chooseTarget manyTargets ''/users/v1/users/5'' []
       = Returns (Inr \<lparr>Scheme = ''https'', Host = ''users.roblox.com'', Path = ''/v1/users/5'',
                        RawQuery = []\<rparr>)
   \<and> chooseTarget (replicate 4294967296 \<lparr>Kind = MemberTargetDirect, Base = None\<rparr>)
         ''/users/v1/users/5'' []
       = Panics DivideByZero"
proof -
  have key: "routingKey ''/users/v1/users/5'' [] = ''/users/v1/users/5''"
    by (simp add: routingKey_def)
  have n: "(of_nat 4294967297 :: go_int) = 4294967297"
    and n': "(of_nat 4294967296 :: go_int) = 4294967296" by simp_all
  have h: "unat (Sum32 (fnv_Write New32a ''/users/v1/users/5'')) mod 4294967297 = 3058854337"
    unfolding Sum32_def fnv_users_5 by simp
  have hashed: "targetURL (manyTargets ! 3058854337) ''/users/v1/users/5'' []
       = Returns (Inr \<lparr>Scheme = ''http'', Host = ''cluster-a'', Path = ''/users/v1/users/5'',
                        RawQuery = []\<rparr>)"
    unfolding manyTargets_hashed
    by (simp add: targetURL_def ResolveReference_def resolve_example)
  have direct: "targetURL \<lparr>Kind = MemberTargetDirect, Base = None\<rparr> ''/users/v1/users/5'' []
       = Returns (Inr \<lparr>Scheme = ''https'', Host = ''users.roblox.com'', Path = ''/v1/users/5'',
                        RawQuery = []\<rparr>)"
    by code_simp
  have ct: "chooseTarget manyTargets ''/users/v1/users/5'' []
       = targetURL (manyTargets ! 0) ''/users/v1/users/5'' []"
    unfolding chooseTarget_def key manyTargets_length n ConsistentIndex_2_32_plus_1 by simp
  have big: "chooseTarget (replicate 4294967296 \<lparr>Kind = MemberTargetDirect, Base = None\<rparr>)
         ''/users/v1/users/5'' [] = Panics DivideByZero"
    unfolding chooseTarget_def key length_replicate n' ConsistentIndex_2_32 by simp
  show ?thesis
    unfolding key manyTargets_length n
    using manyTargets_length h hashed ConsistentIndex_2_32_plus_1 [of "''/users/v1/users/5''"]
      ct [unfolded manyTargets_first direct] big
    by blast
qed

text \<open>
  A request path that starts with a slash is resolved on its own: the base path plays no
  part in the result.
\<close>

lemma resolvePath_absolute:
  assumes "ref \<noteq> []" and "hd ref = CHR ''/''"
  shows "resolvePath base ref = resolvePath base' ref"
  using assms by (simp add: resolvePath_def)

lemma ConsistentIndex_one: "ConsistentIndex key 1 = Returns 0"
  by (simp add: ConsistentIndex_def Let_def del: fnv_Write.simps)

lemma chooseTarget_single:
  "chooseTarget [t] path rawQuery = targetURL t path rawQuery"
  by (simp add: chooseTarget_def ConsistentIndex_one)

lemma chooseTarget_static_ignores_base_path:
  assumes "path \<noteq> []" and "hd path = CHR ''/''"
  shows "chooseTarget [\<lparr>Kind = MemberTargetStatic, Base = Some (base\<lparr>Path := p\<rparr>)\<rparr>] path rawQuery
       = chooseTarget [\<lparr>Kind = MemberTargetStatic, Base = Some (base\<lparr>Path := []\<rparr>)\<rparr>] path rawQuery"
  using assms resolvePath_absolute [OF assms, of p "[]"]
  by (simp add: chooseTarget_single targetURL_def ResolveReference_def)

text \<open>
  C5. For a Static target the resolved URL is claimed to be the base URL with the request
  path appended to the base path. \<open>chooseTarget\<close> resolves the request path as a
  reference against the base (\<open>ResolveReference\<close>), and a reference path that starts
  with a slash replaces the base path: with the one Static target \<open>http://cluster-a/api\<close>
  the request \<open>/users/v1/users/5?limit=10\<close> goes to
  \<open>http://cluster-a/users/v1/users/5?limit=10\<close>. \<open>Target.Resolve\<close> of pool.go, the
  join the provider role uses, gives \<open>/api/users/v1/users/5\<close> for the same base and
  path. The raw query is carried over unchanged by both.
\<close>

theorem chooseTarget_static_replaces_base_path:
  "chooseTarget
     [\<lparr>Kind = MemberTargetStatic,
        Base = Some \<lparr>Scheme = ''http'', Host = ''cluster-a'', Path = ''/api'', RawQuery = []\<rparr>\<rparr>]
     ''/users/v1/users/5'' ''limit=10''
     = Returns (Inr \<lparr>Scheme = ''http'', Host = ''cluster-a'', Path = ''/users/v1/users/5'',
                      RawQuery = ''limit=10''\<rparr>)
   \<and> Target_Resolve \<lparr>Scheme = ''http'', Host = ''cluster-a'', Path = ''/api'', RawQuery = []\<rparr>
       ''/users/v1/users/5'' ''limit=10''
     = \<lparr>Scheme = ''http'', Host = ''cluster-a'', Path = ''/api/users/v1/users/5'',
        RawQuery = ''limit=10''\<rparr>"
  by (simp add: chooseTarget_single targetURL_def ResolveReference_def resolvePath_def
      resolvePath_step_def Let_def Target_Resolve_def joinURLPath_def ensureLeadingSlash_def)

section \<open>The coalescing cache engine\<close>

text \<open>
  C6. When the store's \<open>Get\<close> returns an error, \<open>readThroughCache\<close> returns that error.
  The only call it has made is the \<open>Get\<close>: no fetch, no flight, no \<open>Set\<close>, no
  goroutine, and the outside state is untouched.
\<close>

theorem readThroughCache_store_error:
  assumes "Store_Get (cache h) (ext w) key = (entry, ok, Some err)"
  shows "readThroughCache h w key fetch = (Inl err, w\<lparr>events := events w @ [CacheGet key]\<rparr>)"
  using assms by (simp add: readThroughCache_def emit_def)

theorem readThroughCache_store_error_witness:
  "readThroughCache (exampleHandler brokenStore) (exampleWorld [] 1000) ''roblox:user:1'' flakyFetch
     = (Inl (GoError ''redis get: i/o timeout''),
        \<lparr>ext = \<lparr>cached = [], clock = 1000, upstreamCalls = 0\<rparr>, now = 1000,
         events = [CacheGet ''roblox:user:1''], goroutines = []\<rparr>)"
  using readThroughCache_store_error [of "exampleHandler brokenStore" "exampleWorld [] 1000"
      "''roblox:user:1''" "\<lparr>Payload = [], StoredAt = 0\<rparr>" False
      "GoError ''redis get: i/o timeout''" flakyFetch]
  by (simp add: exampleHandler_def brokenStore_def exampleWorld_def)

text \<open>
  The age of an entry is \<open>time.Since\<close> of its stamp: the difference of the two
  instants when that fits a Duration, and the largest Duration beyond. Against a
  threshold below the largest Duration the two compare alike; against the largest
  Duration itself no age is greater.
\<close>

lemma Since_in_range:
  assumes "minDuration \<le> t - u" and "t - u \<le> maxDuration"
  shows "Since t u = t - u"
  using assms by (simp add: Since_def Time_Sub_def)

lemma Since_exceeds:
  assumes "minDuration \<le> staleAfter" and "staleAfter < maxDuration"
  shows "(Since t u > staleAfter) = (t - u > staleAfter)"
  using assms by (auto simp: Since_def Time_Sub_def Let_def minDuration_def maxDuration_def)

lemma Since_saturates:
  "Since (2 ^ 63) 0 = maxDuration \<and> \<not> Since (2 ^ 63) 0 > maxDuration"
  by (simp add: Since_def Time_Sub_def Let_def minDuration_def maxDuration_def)

text \<open>
  The hit branch. When \<open>Get\<close> finds an entry and returns no error, \<open>readThroughCache\<close>
  returns the stored payload, and the only call it has made is the \<open>Get\<close>: the fetch
  closure has not run and the outside state is untouched. When the age of the entry
  exceeds \<open>BackgroundRefreshAfter\<close> it has also started exactly one goroutine, with the
  key and the fetch closure; otherwise it has started none.
\<close>

lemma readThroughCache_hit:
  assumes "Store_Get (cache h) (ext w) key = (entry, True, None)"
  shows "readThroughCache h w key fetch =
           (Inr (Payload entry),
            if Since (now w) (StoredAt entry) > BackgroundRefreshAfter (cfg h)
            then w\<lparr>events := events w @ [CacheGet key],
                   goroutines := goroutines w @ [Refresh key fetch]\<rparr>
            else w\<lparr>events := events w @ [CacheGet key]\<rparr>)"
  using assms by (simp add: readThroughCache_def emit_def launchRefresh_def Let_def)

lemma readThroughCache_hit_example:
  "readThroughCache (exampleHandler memStore)
      (exampleWorld [(''roblox:user:1'', \<lparr>Payload = ''{}'', StoredAt = 0\<rparr>)] 60000000001)
      ''roblox:user:1'' flakyFetch
     = (Inr ''{}'',
        \<lparr>ext = \<lparr>cached = [(''roblox:user:1'', \<lparr>Payload = ''{}'', StoredAt = 0\<rparr>)],
                clock = 60000000001, upstreamCalls = 0\<rparr>,
         now = 60000000001, events = [CacheGet ''roblox:user:1''],
         goroutines = [Refresh ''roblox:user:1'' flakyFetch]\<rparr>)
   \<and> readThroughCache (exampleHandler memStore)
      (exampleWorld [(''roblox:user:1'', \<lparr>Payload = ''{}'', StoredAt = 0\<rparr>)] 60000000000)
      ''roblox:user:1'' flakyFetch
     = (Inr ''{}'',
        \<lparr>ext = \<lparr>cached = [(''roblox:user:1'', \<lparr>Payload = ''{}'', StoredAt = 0\<rparr>)],
                clock = 60000000000, upstreamCalls = 0\<rparr>,
         now = 60000000000, events = [CacheGet ''roblox:user:1''], goroutines = []\<rparr>)"
  using readThroughCache_hit [of "exampleHandler memStore"
      "exampleWorld [(''roblox:user:1'', \<lparr>Payload = ''{}'', StoredAt = 0\<rparr>)] 60000000001"
      "''roblox:user:1''" "\<lparr>Payload = ''{}'', StoredAt = 0\<rparr>" flakyFetch]
    readThroughCache_hit [of "exampleHandler memStore"
      "exampleWorld [(''roblox:user:1'', \<lparr>Payload = ''{}'', StoredAt = 0\<rparr>)] 60000000000"
      "''roblox:user:1''" "\<lparr>Payload = ''{}'', StoredAt = 0\<rparr>" flakyFetch]
  by (simp add: exampleHandler_def memStore_def exampleWorld_def exampleConfig_def
      Since_def Time_Sub_def Let_def minDuration_def maxDuration_def)

text \<open>
  The body of the refresh goroutine, run while no other flight under its key is in
  progress: it enters the flight group under the key with the suffix \<open>:refresh\<close>, calls
  the fetch closure once and, when the fetch succeeds, stores the payload under the key
  with the cache TTL. A failed fetch and a failed store are logged. What the flight
  group does with a second refresh that starts while the first is running is outside
  this sequential model.
\<close>

lemma refresh_run_alone:
  "refresh_run h w (Refresh key fetch) =
     (case fetch (ext w) of
        (Inl err, x) \<Rightarrow>
          w\<lparr>ext := x,
            events := events w @ [FlightDo (key @ '':refresh''), FetchCall,
                                  Log ''DEBUG'' ''background refresh failed'']\<rparr>
      | (Inr payload, x) \<Rightarrow>
          (case Store_Set (cache h) x key payload (CacheTTL (cfg h)) of
             (None, x') \<Rightarrow>
               w\<lparr>ext := x',
                 events := events w @ [FlightDo (key @ '':refresh''), FetchCall,
                                       CacheSet key payload (CacheTTL (cfg h))]\<rparr>
           | (Some err, x') \<Rightarrow>
               w\<lparr>ext := x',
                 events := events w @ [FlightDo (key @ '':refresh''), FetchCall,
                                       CacheSet key payload (CacheTTL (cfg h)),
                                       Log ''WARN'' ''refresh cache store failed'']\<rparr>))"
  by (simp add: refresh_run_def sgroup_Do_def launchRefresh_flight_def emit_def
      storeWithTTL_def split: prod.splits sum.splits option.splits)

text \<open>
  C2. On a miss whose fetch fails, \<open>readThroughCache\<close> returns the error of the fetch.
  The calls it has made are the \<open>Get\<close>, the flight and the fetch: \<open>Set\<close> is not
  called, and the outside state is the one the fetch left. So when the fetch itself has
  not changed what the store answers for the key, the next \<open>readThroughCache\<close> for the
  key misses again and calls its fetch closure again: its result is the result of that
  fetch. In the example the upstream fails once: the store holds nothing after the first
  call and the payload after the second.
\<close>

theorem readThroughCache_fetch_error:
  assumes miss: "Store_Get (cache h) (ext w) key = (entry, False, None)"
      and fail: "fetch (ext w) = (Inl err, x)"
      and same: "Store_Get (cache h) x key = Store_Get (cache h) (ext w) key"
  shows "readThroughCache h w key fetch
           = (Inl err, w\<lparr>ext := x, events := events w @ [CacheGet key, FlightDo key, FetchCall]\<rparr>)
       \<and> fst (readThroughCache h (snd (readThroughCache h w key fetch)) key fetch')
           = fst (fetch' x)
       \<and> (\<exists>rest. events (snd (readThroughCache h (snd (readThroughCache h w key fetch)) key fetch'))
             = events w @ [CacheGet key, FlightDo key, FetchCall]
                 @ CacheGet key # FlightDo key # FetchCall # rest)"
proof -
  let ?w1 = "w\<lparr>ext := x, events := events w @ [CacheGet key, FlightDo key, FetchCall]\<rparr>"
  have first: "readThroughCache h w key fetch = (Inl err, ?w1)"
    using miss fail
    by (simp add: readThroughCache_def sgroup_Do_def readThroughCache_flight_def emit_def)
  have miss1: "Store_Get (cache h) (ext ?w1) key = (entry, False, None)"
    using miss same by simp
  have second: "readThroughCache h ?w1 key fetch'
                  = readThroughCache_flight h key fetch'
                      (?w1\<lparr>events := events ?w1 @ [CacheGet key, FlightDo key]\<rparr>)"
    using miss1 by (simp add: readThroughCache_def sgroup_Do_def emit_def)
  have a: "fst (readThroughCache h ?w1 key fetch') = fst (fetch' x)"
    unfolding second
    by (auto simp: readThroughCache_flight_def storeWithTTL_def emit_def
        split: prod.splits sum.splits option.splits)
  have b: "\<exists>rest. events (snd (readThroughCache h ?w1 key fetch'))
             = events w @ [CacheGet key, FlightDo key, FetchCall]
                 @ CacheGet key # FlightDo key # FetchCall # rest"
    unfolding second
    by (auto simp: readThroughCache_flight_def storeWithTTL_def emit_def
        split: prod.splits sum.splits option.splits)
  show ?thesis using first a b by simp
qed

theorem readThroughCache_fetch_error_witness:
  "readThroughCache (exampleHandler memStore) (exampleWorld [] 1000) ''roblox:user:1'' flakyFetch
     = (Inl (GoError ''roblox request failed: 503 Service Unavailable''),
        \<lparr>ext = \<lparr>cached = [], clock = 1000, upstreamCalls = 1\<rparr>, now = 1000,
         events = [CacheGet ''roblox:user:1'', FlightDo ''roblox:user:1'', FetchCall],
         goroutines = []\<rparr>)
   \<and> readThroughCache (exampleHandler memStore)
       (snd (readThroughCache (exampleHandler memStore) (exampleWorld [] 1000)
               ''roblox:user:1'' flakyFetch))
       ''roblox:user:1'' flakyFetch
     = (Inr ''{}'',
        \<lparr>ext = \<lparr>cached = [(''roblox:user:1'', \<lparr>Payload = ''{}'', StoredAt = 1000\<rparr>)],
                clock = 1000, upstreamCalls = 2\<rparr>,
         now = 1000,
         events = [CacheGet ''roblox:user:1'', FlightDo ''roblox:user:1'', FetchCall,
                   CacheGet ''roblox:user:1'', FlightDo ''roblox:user:1'', FetchCall,
                   CacheSet ''roblox:user:1'' ''{}'' 300000000000],
         goroutines = []\<rparr>)"
proof -
  have miss: "Store_Get (cache (exampleHandler memStore)) (ext (exampleWorld [] 1000))
                ''roblox:user:1'' = (\<lparr>Payload = [], StoredAt = 0\<rparr>, False, None)"
    by (simp add: exampleHandler_def memStore_def exampleWorld_def)
  have fail: "flakyFetch (ext (exampleWorld [] 1000))
                = (Inl (GoError ''roblox request failed: 503 Service Unavailable''),
                   \<lparr>cached = [], clock = 1000, upstreamCalls = 1\<rparr>)"
    by (simp add: flakyFetch_def exampleWorld_def)
  have same: "Store_Get (cache (exampleHandler memStore))
                \<lparr>cached = [], clock = 1000, upstreamCalls = 1\<rparr> ''roblox:user:1''
              = Store_Get (cache (exampleHandler memStore)) (ext (exampleWorld [] 1000))
                  ''roblox:user:1''"
    by (simp add: exampleHandler_def memStore_def exampleWorld_def)
  from readThroughCache_fetch_error [where h = "exampleHandler memStore"
      and w = "exampleWorld [] 1000" and fetch = flakyFetch and fetch' = flakyFetch,
      OF miss fail same]
  have first: "readThroughCache (exampleHandler memStore) (exampleWorld [] 1000)
                 ''roblox:user:1'' flakyFetch
     = (Inl (GoError ''roblox request failed: 503 Service Unavailable''),
        (exampleWorld [] 1000)\<lparr>ext := \<lparr>cached = [], clock = 1000, upstreamCalls = 1\<rparr>,
          events := events (exampleWorld [] 1000)
                      @ [CacheGet ''roblox:user:1'', FlightDo ''roblox:user:1'', FetchCall]\<rparr>)"
    by (elim conjE)
  show ?thesis
    unfolding first
    by (simp add: exampleWorld_def readThroughCache_def exampleHandler_def memStore_def
        sgroup_Do_def readThroughCache_flight_def flakyFetch_def storeWithTTL_def emit_def
        exampleConfig_def)
qed

section \<open>Header hygiene of the forwarder\<close>

lemma map_of_Header_Del:
  "map_of (Header_Del h key) k = (if k = CanonicalMIMEHeaderKey key then None else map_of h k)"
  by (simp add: Header_Del_def delete_conv)

lemma map_of_foldl_Header_Del:
  "map_of (foldl Header_Del h keys) k
     = (if k \<in> CanonicalMIMEHeaderKey ` set keys then None else map_of h k)"
  by (induction keys arbitrary: h) (auto simp: map_of_Header_Del)

lemma map_of_Header_Set:
  "map_of (Header_Set h key v) k = (if k = CanonicalMIMEHeaderKey key then Some [v] else map_of h k)"
  by (simp add: Header_Set_def update_conv')

lemma hopHeaders_each_canonical:
  "list_all (\<lambda>k. CanonicalMIMEHeaderKey k = k) hopHeaders"
  by code_simp

lemma hop_canonical:
  assumes "hop \<in> set hopHeaders"
  shows "CanonicalMIMEHeaderKey hop = hop"
  using assms hopHeaders_each_canonical by (simp add: list_all_iff)

lemma hopHeaders_canonical: "CanonicalMIMEHeaderKey ` set hopHeaders = set hopHeaders"
  using hop_canonical by force

lemma forwarded_keys_canonical:
  "CanonicalMIMEHeaderKey ''X-Forwarded-For'' = ''X-Forwarded-For''"
  "CanonicalMIMEHeaderKey ''X-Forwarded-Proto'' = ''X-Forwarded-Proto''"
  "CanonicalMIMEHeaderKey ''X-Forwarded-Host'' = ''X-Forwarded-Host''"
  by code_simp+

lemma map_of_setForwardedHeaders:
  assumes "k \<noteq> ''X-Forwarded-For''" "k \<noteq> ''X-Forwarded-Proto''" "k \<noteq> ''X-Forwarded-Host''"
  shows "map_of (setForwardedHeaders lib h r) k = map_of h k"
  using assms
  by (simp add: setForwardedHeaders_def Let_def map_of_Header_Set forwarded_keys_canonical
      split: sum.splits prod.splits)

lemma forwarded_not_hop:
  "''X-Forwarded-For'' \<notin> set hopHeaders \<and> ''X-Forwarded-Proto'' \<notin> set hopHeaders
     \<and> ''X-Forwarded-Host'' \<notin> set hopHeaders"
  by (simp add: hopHeaders_def)

lemma hop_not_forwarded:
  assumes "hop \<in> set hopHeaders"
  shows "hop \<noteq> ''X-Forwarded-For''" "hop \<noteq> ''X-Forwarded-Proto''" "hop \<noteq> ''X-Forwarded-Host''"
  using assms forwarded_not_hop by blast+

text \<open>
  C8. Take any of the nine hop-by-hop header names. The request that
  \<open>cloneRequestWithURL\<close> builds has no entry under that name in its header map, whatever
  the inbound request carried; and when the upstream has answered, the header map that
  \<open>Forwarder.Do\<close> leaves on the response writer has no entry under that name, whatever the
  upstream response carried. (Keys are stored in canonical form, so an inbound
  \<open>connection\<close> is the entry \<open>Connection\<close> and is removed with it. The fields
  \<open>TransferEncoding\<close> and \<open>Trailer\<close> of the request are copied beside the header map, as
  the source does.)
\<close>

theorem hop_headers_removed:
  assumes hop: "hop \<in> set hopHeaders"
  shows "(cloneRequestWithURL lib r target = Inr out
            \<longrightarrow> map_of (Req_Header out) hop = None \<and> Header_Get (Req_Header out) hop = [])
       \<and> (Client f = Some client_Do \<and> cloneRequestWithURL lib r target = Inr out
            \<and> client_Do (ext w0) out = (Inr reqResp, x)
            \<longrightarrow> map_of (rw_Header (fst (snd (Forwarder_Do lib f w0 w r target)))) hop = None
              \<and> Header_Get (rw_Header (fst (snd (Forwarder_Do lib f w0 w r target)))) hop = [])"
proof -
  have canon: "CanonicalMIMEHeaderKey hop = hop"
    using hop by (rule hop_canonical)
  have del: "map_of (foldl Header_Del h hopHeaders) hop = None" for h
    using hop by (simp add: map_of_foldl_Header_Del hopHeaders_canonical)
  have req: "map_of (Req_Header out) hop = None"
    if "cloneRequestWithURL lib r target = Inr out"
    using that hop_not_forwarded [OF hop]
    by (auto simp: cloneRequestWithURL_def Let_def map_of_setForwardedHeaders del
        split: sum.splits)
  have resp: "map_of (rw_Header (fst (snd (Forwarder_Do lib f w0 w r target)))) hop = None"
    if "Client f = Some client_Do" "cloneRequestWithURL lib r target = Inr out"
       "client_Do (ext w0) out = (Inr reqResp, x)"
    using that
    by (simp add: Forwarder_Do_def Let_def emit_def WriteHeader_def Write_def del)
  show ?thesis
    using req resp by (auto simp: Header_Get_def canon)
qed

theorem hop_headers_removed_witness:
  "cloneRequestWithURL exampleLib (exampleRequest ''/users/v1/users/5'' [] hopfulHeader)
      exampleTarget
     = Inr \<lparr>Method = ''GET'', Req_URL = exampleTarget,
            Req_Header = [(''Accept'', [''application/json'']),
                          (''X-Forwarded-For'', [''10.0.0.7'']),
                          (''X-Forwarded-Proto'', [''http'']),
                          (''X-Forwarded-Host'', [''proxy.example''])],
            Req_Body = None, ContentLength = 0, TransferEncoding = [], Trailer = [],
            Req_Host = ''users.roblox.com'', RemoteAddr = [], TLS = False\<rparr>
   \<and> fst (snd (Forwarder_Do exampleLib \<lparr>Client = Some exampleUpstream\<rparr> (exampleWorld [] 0)
                  freshWriter (exampleRequest ''/users/v1/users/5'' [] hopfulHeader)
                  exampleTarget))
     = \<lparr>rw_Header = [(''Accept'', [''application/json''])], rw_Status = Some 200,
        rw_Body = ''ok''\<rparr>
   \<and> map_of (rw_Header (fst (snd (Forwarder_Do exampleLib \<lparr>Client = Some exampleUpstream\<rparr>
                  (exampleWorld [] 0) freshWriter
                  (exampleRequest ''/users/v1/users/5'' [] hopfulHeader) exampleTarget))))
        ''Transfer-Encoding'' = None"
proof -
  let ?r = "exampleRequest ''/users/v1/users/5'' [] hopfulHeader"
  let ?out = "\<lparr>Method = ''GET'', Req_URL = exampleTarget,
            Req_Header = [(''Accept'', [''application/json'']),
                          (''X-Forwarded-For'', [''10.0.0.7'']),
                          (''X-Forwarded-Proto'', [''http'']),
                          (''X-Forwarded-Host'', [''proxy.example''])],
            Req_Body = None, ContentLength = 0, TransferEncoding = [], Trailer = [],
            Req_Host = ''users.roblox.com'', RemoteAddr = [], TLS = False\<rparr>"
  have clone: "cloneRequestWithURL exampleLib ?r exampleTarget = Inr ?out"
    by code_simp
  have fwd: "fst (snd (Forwarder_Do exampleLib \<lparr>Client = Some exampleUpstream\<rparr>
                (exampleWorld [] 0) freshWriter ?r exampleTarget))
     = \<lparr>rw_Header = [(''Accept'', [''application/json''])], rw_Status = Some 200,
        rw_Body = ''ok''\<rparr>"
    by code_simp
  have hop: "''Transfer-Encoding'' \<in> set hopHeaders" by (simp add: hopHeaders_def)
  have cl: "Client \<lparr>Client = Some exampleUpstream\<rparr> = Some exampleUpstream" by simp
  have up: "exampleUpstream (ext (exampleWorld [] 0)) ?out
              = (Inr \<lparr>StatusCode = 200, Resp_Header = hopfulHeader, Resp_Body = (''ok'', None)\<rparr>,
                 \<lparr>cached = [], clock = 0, upstreamCalls = 1\<rparr>)"
    by (simp add: exampleUpstream_def exampleWorld_def)
  from hop_headers_removed [OF hop, where lib = exampleLib and r = ?r
      and target = exampleTarget and out = ?out
      and f = "\<lparr>Client = Some exampleUpstream\<rparr>" and client_Do = exampleUpstream
      and ?w0.0 = "exampleWorld [] 0" and w = freshWriter] clone cl up
  have "map_of (rw_Header (fst (snd (Forwarder_Do exampleLib \<lparr>Client = Some exampleUpstream\<rparr>
                  (exampleWorld [] 0) freshWriter ?r exampleTarget)))) ''Transfer-Encoding'' = None"
    by blast
  then show ?thesis using clone fwd by simp
qed

section \<open>Dispatch on the user id\<close>













section \<open>Error bodies\<close>



























end
